theory Spec2Isabelle
  imports Main
begin

section \<open>Distributed trace propagation: the client and the server of the notebook\<close>

text \<open>
  The repository's own code for trace propagation is the pair of functions of the
  distributed tracing notebook: \<^verbatim>\<open>parent_node\<close> (the client, which copies
  \<^verbatim>\<open>run_tree.to_headers()\<close> into the headers of its request) and
  \<^verbatim>\<open>tracing\<close> (the server's handler of \<^verbatim>\<open>POST /tracing\<close>, which picks two
  header fields and resumes tracing under them).

  The functions \<^verbatim>\<open>RunTree.to_headers\<close>, \<^verbatim>\<open>tracing_context\<close> and
  \<^verbatim>\<open>child_graph.ainvoke\<close> belong to imported libraries. They are parameters of the
  model below: each is an arbitrary function of exactly the arguments the notebook passes.
\<close>

subsection \<open>Data\<close>

text \<open>
  A carrier of header fields (\<^verbatim>\<open>request.headers\<close>, the \<^verbatim>\<open>headers\<close> dict of the
  client) is a mapping from field names to values; \<^verbatim>\<open>.get(k)\<close> is the lookup, with
  \<open>None\<close> for an absent field. A JSON body is the object \<^verbatim>\<open>{"value": n}\<close> of
  \<^verbatim>\<open>ChildState\<close>, a mapping from keys to integers.
\<close>

type_synonym headers = "string \<rightharpoonup> string"

type_synonym json = "string \<rightharpoonup> int"

record request =
  headers :: headers
  json :: json

text \<open>\<^verbatim>\<open>class ParentState(TypedDict): input_value: int; output_value: int\<close>\<close>

record ParentState =
  input_value :: int
  output_value :: int

text \<open>
  A subscript on a missing key raises \<^verbatim>\<open>KeyError\<close>; whatever a library call raises
  propagates unchanged.
\<close>

datatype 'e error = KeyError string | Raised 'e

subsection \<open>The server: \<^verbatim>\<open>tracing\<close>\<close>

text \<open>
  \<^verbatim>\<open>
  parent_headers = {
      "langsmith-trace": request.headers.get("langsmith-trace"),
      "baggage": request.headers.get("baggage"),
  }
  \<close>
  The dict always has both keys; the value of a key is \<open>None\<close> when the request lacks
  the field.
\<close>

definition parent_headers :: "request \<Rightarrow> (string \<rightharpoonup> string option)" where
  "parent_headers request =
     [''langsmith-trace'' \<mapsto> headers request ''langsmith-trace'',
      ''baggage'' \<mapsto> headers request ''baggage'']"

text \<open>
  \<^verbatim>\<open>with tracing_context(parent=parent_headers):\<close>
  The parent under which the handler resumes tracing is what the library makes of
  \<open>parent_headers\<close>; the library may also raise.
\<close>

definition tracing_parent ::
  "((string \<rightharpoonup> string option) \<Rightarrow> 'e + 'ctx) \<Rightarrow> request \<Rightarrow> 'e + 'ctx" where
  "tracing_parent tracing_context request = tracing_context (parent_headers request)"

text \<open>
  \<^verbatim>\<open>
  async def tracing(request: Request):
      parent_headers = {...}
      with tracing_context(parent=parent_headers):
          data = await request.json()
          result = await child_graph.ainvoke({"value": data["value"]})
          return result
  \<close>
  The graph runs inside the context, so it receives the resumed parent besides its input.
\<close>

definition tracing ::
  "((string \<rightharpoonup> string option) \<Rightarrow> 'e + 'ctx) \<Rightarrow> ('ctx \<Rightarrow> json \<Rightarrow> 'e + json) \<Rightarrow>
     request \<Rightarrow> 'e error + json" where
  "tracing tracing_context ainvoke request =
     (case tracing_parent tracing_context request of
        Inl e \<Rightarrow> Inl (Raised e)
      | Inr ctx \<Rightarrow>
          (let data = json request in
           case data ''value'' of
             None \<Rightarrow> Inl (KeyError ''value'')
           | Some v \<Rightarrow>
               (case ainvoke ctx [''value'' \<mapsto> v] of
                  Inl e \<Rightarrow> Inl (Raised e)
                | Inr result \<Rightarrow> Inr result)))"

subsection \<open>The client: \<^verbatim>\<open>parent_node\<close>\<close>

text \<open>
  \<^verbatim>\<open>
  headers = {}
  run_tree = get_current_run_tree()
  headers.update(run_tree.to_headers())
  \<close>
\<close>

definition client_headers :: "('rt \<Rightarrow> headers) \<Rightarrow> 'rt \<Rightarrow> headers" where
  "client_headers to_headers run_tree = Map.empty ++ to_headers run_tree"

text \<open>
  \<^verbatim>\<open>
  response = await client.post("/tracing", headers=headers,
                               json={"value": state["input_value"]})
  result = response.json()
  return {"input_value": state["input_value"], "output_value": result["value"]}
  \<close>
  \<open>post\<close> is the transport together with the server behind it.
\<close>

definition client_request :: "('rt \<Rightarrow> headers) \<Rightarrow> 'rt \<Rightarrow> ParentState \<Rightarrow> request" where
  "client_request to_headers run_tree state =
     \<lparr>headers = client_headers to_headers run_tree,
      json = [''value'' \<mapsto> input_value state]\<rparr>"

definition parent_node ::
  "('rt \<Rightarrow> headers) \<Rightarrow> (request \<Rightarrow> 'e error + json) \<Rightarrow> 'rt \<Rightarrow> ParentState \<Rightarrow>
     'e error + ParentState" where
  "parent_node to_headers post run_tree state =
     (case post (client_request to_headers run_tree state) of
        Inl e \<Rightarrow> Inl e
      | Inr result \<Rightarrow>
          (case result ''value'' of
             None \<Rightarrow> Inl (KeyError ''value'')
           | Some v \<Rightarrow> Inr \<lparr>input_value = input_value state, output_value = v\<rparr>))"

subsection \<open>Two concrete requests\<close>

text \<open>
  Two requests that carry the same trace and baggage fields and differ in every other
  header and in their bodies.
\<close>

definition request_a :: request where
  "request_a =
     \<lparr>headers = [''langsmith-trace'' \<mapsto> ''20250722T135529401532Z76a7cf38'',
                 ''baggage'' \<mapsto> ''langsmith-project=demo'',
                 ''user-agent'' \<mapsto> ''python-httpx''],
      json = [''value'' \<mapsto> 10]\<rparr>"

definition request_b :: request where
  "request_b =
     \<lparr>headers = [''langsmith-trace'' \<mapsto> ''20250722T135529401532Z76a7cf38'',
                 ''baggage'' \<mapsto> ''langsmith-project=demo'',
                 ''user-agent'' \<mapsto> ''curl'',
                 ''x-request-id'' \<mapsto> ''42''],
      json = [''value'' \<mapsto> 11]\<rparr>"

section \<open>Properties of the server's handler\<close>

lemma parent_headers_dom:
  "dom (parent_headers request) = {''langsmith-trace'', ''baggage''}"
  by (auto simp: parent_headers_def)

lemma parent_headers_trace:
  "parent_headers request ''langsmith-trace'' = Some (headers request ''langsmith-trace'')"
  by (simp add: parent_headers_def)

lemma parent_headers_baggage:
  "parent_headers request ''baggage'' = Some (headers request ''baggage'')"
  by (simp add: parent_headers_def)

text \<open>
  The dict built by the handler determines, and is determined by, the two fields it is
  built from: it is not constant, and nothing else of the request enters it.
\<close>

lemma parent_headers_eq_iff:
  "parent_headers r1 = parent_headers r2 \<longleftrightarrow>
     headers r1 ''langsmith-trace'' = headers r2 ''langsmith-trace'' \<and>
     headers r1 ''baggage'' = headers r2 ''baggage''"
proof
  assume eq: "parent_headers r1 = parent_headers r2"
  have "Some (headers r1 ''langsmith-trace'') = Some (headers r2 ''langsmith-trace'')"
    using eq parent_headers_trace [of r1] parent_headers_trace [of r2] by simp
  moreover
  have "Some (headers r1 ''baggage'') = Some (headers r2 ''baggage'')"
    using eq parent_headers_baggage [of r1] parent_headers_baggage [of r2] by simp
  ultimately show
    "headers r1 ''langsmith-trace'' = headers r2 ''langsmith-trace'' \<and>
     headers r1 ''baggage'' = headers r2 ''baggage''"
    by simp
next
  assume "headers r1 ''langsmith-trace'' = headers r2 ''langsmith-trace'' \<and>
     headers r1 ''baggage'' = headers r2 ''baggage''"
  then show "parent_headers r1 = parent_headers r2"
    by (simp add: parent_headers_def)
qed

text \<open>
  C10. Two requests to the \<^verbatim>\<open>/tracing\<close> endpoint that agree on the header fields
  \<^verbatim>\<open>langsmith-trace\<close> and \<^verbatim>\<open>baggage\<close> give the handler the same
  \<open>parent_headers\<close> and therefore the same resumed parent (or the same failure of the
  library), whatever their other headers and their bodies are and whatever function of
  \<open>parent_headers\<close> the library \<^verbatim>\<open>tracing_context\<close> is: the handler reads no header
  besides those two.
\<close>

theorem tracing_parent_reads_two_fields:
  assumes "headers r1 ''langsmith-trace'' = headers r2 ''langsmith-trace''"
    and "headers r1 ''baggage'' = headers r2 ''baggage''"
  shows "parent_headers r1 = parent_headers r2 \<and>
         tracing_parent tracing_context r1 = tracing_parent tracing_context r2"
proof -
  have "parent_headers r1 = parent_headers r2"
    using assms by (simp add: parent_headers_def)
  then show ?thesis
    by (simp add: tracing_parent_def)
qed

theorem tracing_parent_reads_two_fields_witness:
  "headers request_a ''langsmith-trace'' = headers request_b ''langsmith-trace'' \<and>
   headers request_a ''baggage'' = headers request_b ''baggage'' \<and>
   headers request_a ''user-agent'' \<noteq> headers request_b ''user-agent'' \<and>
   headers request_a ''x-request-id'' \<noteq> headers request_b ''x-request-id'' \<and>
   json request_a \<noteq> json request_b \<and>
   parent_headers request_a = parent_headers request_b \<and>
   tracing_parent Inr request_a = (tracing_parent Inr request_b :: unit + _)"
proof -
  have t: "headers request_a ''langsmith-trace'' = headers request_b ''langsmith-trace''"
    by (simp add: request_a_def request_b_def)
  have b: "headers request_a ''baggage'' = headers request_b ''baggage''"
    by (simp add: request_a_def request_b_def)
  have u: "headers request_a ''user-agent'' \<noteq> headers request_b ''user-agent''"
    by (simp add: request_a_def request_b_def)
  have x: "headers request_a ''x-request-id'' \<noteq> headers request_b ''x-request-id''"
    by (simp add: request_a_def request_b_def)
  have "json request_a ''value'' \<noteq> json request_b ''value''"
    by (simp add: request_a_def request_b_def)
  then have j: "json request_a \<noteq> json request_b"
    by auto
  note same = tracing_parent_reads_two_fields [OF t b, of Inr]
  from t b u x j same show ?thesis
    by blast
qed

text \<open>
  With equal bodies as well, the whole response of the handler is the same.
\<close>

lemma tracing_response_reads_two_fields:
  assumes "headers r1 ''langsmith-trace'' = headers r2 ''langsmith-trace''"
    and "headers r1 ''baggage'' = headers r2 ''baggage''"
    and "json r1 = json r2"
  shows "tracing tracing_context ainvoke r1 = tracing tracing_context ainvoke r2"
proof -
  have "parent_headers r1 = parent_headers r2"
    using assms(1,2) by (simp add: parent_headers_eq_iff)
  then have "tracing_parent tracing_context r1 = tracing_parent tracing_context r2"
    by (simp add: tracing_parent_def)
  with assms(3) show ?thesis
    by (simp add: tracing_def split: sum.split)
qed

text \<open>
  A failure of the library inside \<^verbatim>\<open>tracing_context\<close> is the handler's failure: the
  graph does not run.
\<close>

lemma tracing_propagates_failure:
  "tracing_parent tracing_context request = Inl e \<Longrightarrow>
     tracing tracing_context ainvoke request = Inl (Raised e)"
  by (simp add: tracing_def)

section \<open>Properties of the client\<close>

lemma client_headers_eq: "client_headers to_headers run_tree = to_headers run_tree"
  by (simp add: client_headers_def)

text \<open>
  End to end: when the client's request reaches the handler unchanged, the handler resumes
  under the two fields of \<^verbatim>\<open>run_tree.to_headers()\<close> and under nothing else.
\<close>

lemma parent_headers_of_client_request:
  "parent_headers (client_request to_headers run_tree state) =
     [''langsmith-trace'' \<mapsto> to_headers run_tree ''langsmith-trace'',
      ''baggage'' \<mapsto> to_headers run_tree ''baggage'']"
  by (simp add: parent_headers_def client_request_def client_headers_eq)

lemma parent_node_value:
  assumes "post (client_request to_headers run_tree state) = Inr result"
    and "result ''value'' = Some v"
  shows "parent_node to_headers post run_tree state =
           Inr \<lparr>input_value = input_value state, output_value = v\<rparr>"
  using assms by (simp add: parent_node_def)

end
